theory Spec2Isabelle
  imports Complex_Main
begin

section \<open>Strings and numbers of the script\<close>

text \<open>
  The dashboard script \<^verbatim>\<open>static/js/dashboard.js\<close> works on JS strings and JS numbers.
  A JS string is modelled as a \<^typ>\<open>string\<close>, one \<^typ>\<open>char\<close> per code unit. The
  literals of the script are ASCII but for one accented letter, which is written by
  its code (\<open>0xF3\<close> is the o with an acute accent).

  A JS number is modelled by the exact value it stands for: an \<^typ>\<open>int\<close> for a product
  id, a \<^typ>\<open>rat\<close> for a price (the value of the double that the JSON parser produced).
  \<open>NaN\<close> and the infinities do not occur in JSON.
\<close>

definition oacute :: char where
  "oacute = char_of (243 :: nat)"

definition indent :: "nat \<Rightarrow> string" where
  "indent n = replicate n (CHR '' '')"

definition nl :: string where
  "nl = [char_of (10 :: nat)]"

definition digit :: "nat \<Rightarrow> char" where
  "digit d = char_of (48 + d)"

definition is_digit :: "char \<Rightarrow> bool" where
  "is_digit c = (48 \<le> (of_char c :: nat) \<and> (of_char c :: nat) \<le> 57)"

text \<open>The decimal digits of a non-negative integer, most significant first.\<close>

function digits :: "nat \<Rightarrow> string" where
  "digits n = (if n < 10 then [digit n] else digits (n div 10) @ [digit (n mod 10)])"
  by pat_completeness auto
termination
  by (relation "measure (\<lambda>n. n)") auto

declare digits.simps [simp del]

text \<open>
  What a template literal \<^verbatim>\<open>${id}\<close> and an assignment of a number to \<open>input.value\<close>
  produce for an integer: its decimal digits, with a minus sign when negative. That
  is the conversion of a JS number for the integers it holds exactly and prints in
  full, those below \<open>2^53\<close> in size, which is where product ids are taken from;
  from there on a JS number rounds, and from \<open>10^21\<close> on it prints in exponent form.
\<close>

definition intToString :: "int \<Rightarrow> string" where
  "intToString i = (if i < 0 then ''-'' @ digits (nat (- i)) else digits (nat i))"

text \<open>
  \<^verbatim>\<open>Number.prototype.toFixed(f)\<close>, following the steps of the language
  definition on the exact value \<open>x\<close> of the number: the sign is split off, \<open>n\<close> is the
  integer nearest to \<open>x * 10^f\<close> (the larger one on a tie), and its digits are padded
  with zeros to \<open>f + 1\<close> places before the point is put in. From \<open>10^21\<close> on the
  result is the runtime's general number-to-string conversion, which is not part of
  the script and is the parameter \<open>numberToString\<close>.
\<close>

definition toFixed :: "(rat \<Rightarrow> string) \<Rightarrow> nat \<Rightarrow> rat \<Rightarrow> string" where
  "toFixed numberToString f x0 =
     (let s = (if x0 < 0 then ''-'' else '''');
          x = (if x0 < 0 then - x0 else x0)
      in if x \<ge> 10 ^ 21 then s @ numberToString x
         else
           let n = nat \<lfloor>x * 10 ^ f + 1 / 2\<rfloor>;
               m = digits n
           in if f \<noteq> 0 then
                let k = length m;
                    m' = (if k \<le> f then replicate (f + 1 - k) (CHR ''0'') @ m else m);
                    k' = (if k \<le> f then f + 1 else k)
                in s @ take (k' - f) m' @ ''.'' @ drop (k' - f) m'
              else s @ m)"

section \<open>Values exchanged with the backend\<close>

text \<open>
  A product as the JSON of \<^verbatim>\<open>GET /api/products\<close> gives it. An optional field
  that is \<open>null\<close> or has no key is \<open>None\<close>: the script only tests the description
  and the price for truthiness, where the two cases do the same. The image is also
  printed as it is (line 69), where they differ, so it keeps them apart.
\<close>

datatype image_field = NoImageKey | NullImage | Image string

record product =
  p_id :: int
  p_name :: string
  p_description :: "string option"
  p_price :: "rat option"
  p_image :: image_field

text \<open>JS truthiness of an optional string and of an optional number.\<close>

fun truthy_str :: "string option \<Rightarrow> bool" where
  "truthy_str None = False"
| "truthy_str (Some t) = (t \<noteq> [])"

fun truthy_num :: "rat option \<Rightarrow> bool" where
  "truthy_num None = False"
| "truthy_num (Some x) = (x \<noteq> 0)"

text \<open>\<^verbatim>\<open>${v}\<close> for an optional string: \<open>null\<close> prints as the word.\<close>

fun interp_str :: "string option \<Rightarrow> string" where
  "interp_str None = ''null''"
| "interp_str (Some t) = t"

text \<open>
  The image field under \<^verbatim>\<open>${p.image}\<close> and under a truthiness test: a missing key
  reads as \<open>undefined\<close>.
\<close>

fun interp_image :: "image_field \<Rightarrow> string" where
  "interp_image NoImageKey = ''undefined''"
| "interp_image NullImage = ''null''"
| "interp_image (Image t) = t"

fun truthy_image :: "image_field \<Rightarrow> bool" where
  "truthy_image (Image t) = (t \<noteq> [])"
| "truthy_image f = False"

section \<open>The product card\<close>

text \<open>
  The template literal of \<open>loadProducts\<close> (lines 67-80) with its line breaks and
  indentation: the text up to the description (\<open>card_head\<close>), the two conditional
  expressions of lines 72 and 73, and the text after the price (\<open>card_tail\<close>).
\<close>

definition description_line :: "product \<Rightarrow> string" where
  \<open>description_line p =
     (if truthy_str (p_description p) then ''<p>'' @ the (p_description p) @ ''</p>'' else '''')\<close>

definition price_line :: "(rat \<Rightarrow> string) \<Rightarrow> product \<Rightarrow> string" where
  \<open>price_line numberToString p =
     (if truthy_num (p_price p)
      then ''<p><strong>$'' @ toFixed numberToString 2 (the (p_price p)) @ ''</strong></p>''
      else '''')\<close>

definition card_head :: "product \<Rightarrow> string" where
  \<open>card_head p =
     nl @ indent 12 @ ''<div class="product-item">'' @
     nl @ indent 16 @ ''<img src="data:image/jpeg;base64,'' @ interp_image (p_image p) @
       ''" alt="'' @ p_name p @ ''">'' @
     nl @ indent 16 @ ''<div class="product-item-info">'' @
     nl @ indent 20 @ ''<h4>'' @ p_name p @ ''</h4>'' @
     nl @ indent 20\<close>

definition card_tail :: "product \<Rightarrow> string" where
  \<open>card_tail p =
     nl @ indent 16 @ ''</div>'' @
     nl @ indent 16 @ ''<div class="product-item-actions">'' @
     nl @ indent 20 @ ''<button class="btn-edit" onclick="editProduct('' @ intToString (p_id p) @
       '')">Editar</button>'' @
     nl @ indent 20 @ ''<button class="btn-delete" onclick="deleteProduct('' @ intToString (p_id p) @
       '')">Eliminar</button>'' @
     nl @ indent 16 @ ''</div>'' @
     nl @ indent 12 @ ''</div>'' @
     nl @ indent 8\<close>

definition product_card :: "(rat \<Rightarrow> string) \<Rightarrow> product \<Rightarrow> string" where
  "product_card numberToString p =
     card_head p @ description_line p @
     nl @ indent 20 @ price_line numberToString p @
     card_tail p"

definition render_products :: "(rat \<Rightarrow> string) \<Rightarrow> product list \<Rightarrow> string" where
  \<open>render_products numberToString products =
     (if length products = 0
      then ''<p class="no-products">No hay productos. Agrega el primero.</p>''
      else concat (map (product_card numberToString) products))\<close>

section \<open>Requests and responses\<close>

text \<open>
  The site configuration, as \<^verbatim>\<open>GET /api/config\<close> returns it and as the config form
  sends it back.
\<close>

record config =
  primary_color :: string
  background_color :: string
  product_bg_color :: string
  whatsapp_number :: "string option"

datatype form_value = Text string | File string

datatype request_body =
    NoBody
  | FormData "(string \<times> form_value) list"
  | JsonBody config

text \<open>
  A call of \<open>fetch\<close>: the method (\<open>GET\<close> when the call gives none), the URL, the
  \<open>Authorization\<close> and \<open>Content-Type\<close> headers when the call sets them, and the body.
\<close>

record request =
  r_method :: string
  r_url :: string
  r_authorization :: "string option"
  r_content_type :: "string option"
  r_body :: request_body

text \<open>
  What \<open>response.json()\<close> yields: it rejects when the body is not JSON (\<open>NoJson\<close>);
  otherwise the backend sends a product array, a configuration object, or some other
  object, of which the script reads only the \<open>detail\<close> field (a string, when present).
\<close>

datatype json =
    NoJson
  | JsonArray "product list"
  | JsonObject "string option"
  | JsonConfig config

text \<open>
  The outcome of an awaited \<open>fetch\<close>: the promise rejects (\<open>NetworkError\<close>) or resolves
  to a response with a status and a body.
\<close>

datatype fetch_result = NetworkError | Response nat json

definition ok :: "nat \<Rightarrow> bool" where
  "ok status = (200 \<le> status \<and> status \<le> 299)"

section \<open>The page\<close>

text \<open>
  The state the script reads and writes: the token in \<open>localStorage\<close>, the address
  of the window, the two module-level bindings (\<open>authHeaders\<close>, \<open>currentEditId\<close>) and
  the elements of the page it touches, each under its element id. The template of
  the page is not part of the repository, so the values that the template gives
  (the defaults that \<open>form.reset()\<close> restores, the initial texts) are whatever the
  initial state holds, and every element the script looks up is taken to be there.
  \<open>requests\<close> records the calls of \<open>fetch\<close> in order; \<open>clock\<close> and
  \<open>timers\<close> are the time in milliseconds and the due times of the pending
  \<open>setTimeout\<close> callbacks of \<open>showMessage\<close>.
\<close>

datatype tab = Products | Config

record dashboard =
  localStorage_token :: "string option"
  location_href :: string
  authHeaders :: string
  currentEditId :: "int option"
  activeTab :: tab
  productsList :: string
  modalActive :: bool
  modalTitle :: string
  productId :: string
  productName :: string
  productDescription :: string
  productPrice :: string
  default_productName :: string
  default_productDescription :: string
  default_productPrice :: string
  productImage_required :: bool
  productImage_file :: "string option"
  imagePreview_src :: string
  imagePreview_display :: string
  primaryColor :: string
  backgroundColor :: string
  productBgColor :: string
  whatsappNumber :: string
  message_text :: string
  message_class :: string
  clock :: nat
  timers :: "nat list"
  requests :: "request list"

definition fetch :: "request \<Rightarrow> dashboard \<Rightarrow> dashboard" where
  "fetch r s = s\<lparr>requests := requests s @ [r]\<rparr>"

section \<open>Notifications (lines 286-294)\<close>

definition showMessage :: "string \<Rightarrow> string \<Rightarrow> dashboard \<Rightarrow> dashboard" where
  "showMessage text type s =
     s\<lparr>message_text := text,
       message_class := ''message '' @ type,
       timers := timers s @ [clock s + 4000]\<rparr>"

text \<open>
  Time passing by \<open>d\<close> milliseconds: every callback that is due by then runs, and each
  of them sets the class of the message element back to \<open>message\<close>. Nothing cancels a
  pending callback.
\<close>

definition advance :: "nat \<Rightarrow> dashboard \<Rightarrow> dashboard" where
  "advance d s =
     (let t = clock s + d
      in if filter (\<lambda>due. due \<le> t) (timers s) = [] then s\<lparr>clock := t\<rparr>
         else s\<lparr>clock := t, message_class := ''message'',
                timers := filter (\<lambda>due. \<not> due \<le> t) (timers s)\<rparr>)"

section \<open>Loading the products (lines 47-85)\<close>

definition get_products :: "dashboard \<Rightarrow> request" where
  "get_products s =
     \<lparr>r_method = ''GET'', r_url = ''/api/products'',
      r_authorization = Some (authHeaders s), r_content_type = None, r_body = NoBody\<rparr>"

text \<open>
  Reading \<open>length\<close> of a body that is not an array gives \<open>undefined\<close>, and calling its
  \<open>map\<close> throws; the \<open>catch\<close> turns that, a rejected \<open>fetch\<close> and a rejected \<open>json()\<close>
  into the same notification.
\<close>

definition loadProducts :: "(rat \<Rightarrow> string) \<Rightarrow> fetch_result \<Rightarrow> dashboard \<Rightarrow> dashboard" where
  "loadProducts numberToString result s =
     (let s1 = fetch (get_products s) s
      in case result of
           NetworkError \<Rightarrow> showMessage ''Error al cargar productos'' ''error'' s1
         | Response status body \<Rightarrow>
             if status = 401
             then s1\<lparr>localStorage_token := None, location_href := ''/login''\<rparr>
             else (case body of
                     JsonArray products \<Rightarrow>
                       s1\<lparr>productsList := render_products numberToString products\<rparr>
                   | _ \<Rightarrow> showMessage ''Error al cargar productos'' ''error'' s1))"

section \<open>The product modal (lines 90-128)\<close>

text \<open>
  \<open>form.reset()\<close> puts the text inputs of the product form back to the defaults of
  the template and empties the file selection.
\<close>

definition productForm_reset :: "dashboard \<Rightarrow> dashboard" where
  "productForm_reset s =
     s\<lparr>productName := default_productName s,
       productDescription := default_productDescription s,
       productPrice := default_productPrice s,
       productImage_file := None\<rparr>"

definition addBtn_onclick :: "dashboard \<Rightarrow> dashboard" where
  "addBtn_onclick s =
     (productForm_reset (s\<lparr>currentEditId := None, modalTitle := ''Agregar Producto''\<rparr>))
       \<lparr>productId := [],
        imagePreview_display := ''none'',
        productImage_required := True,
        modalActive := True\<rparr>"

definition closeProductModal :: "dashboard \<Rightarrow> dashboard" where
  "closeProductModal s = s\<lparr>modalActive := False\<rparr>"

text \<open>\<open>window.onclick\<close>: \<open>on_modal\<close> says whether the target of the click is the modal.\<close>

definition window_onclick :: "bool \<Rightarrow> dashboard \<Rightarrow> dashboard" where
  "window_onclick on_modal s = (if on_modal then closeProductModal s else s)"

text \<open>
  The \<open>change\<close> listener of the image input: the browser has stored the selection
  (a file and the data URL the reader will produce for it, or nothing), and the
  preview is shown when there is a file.
\<close>

definition productImage_change :: "(string \<times> string) option \<Rightarrow> dashboard \<Rightarrow> dashboard" where
  "productImage_change selection s =
     (case selection of
        None \<Rightarrow> s\<lparr>productImage_file := None\<rparr>
      | Some (file, data_url) \<Rightarrow>
          s\<lparr>productImage_file := Some file,
            imagePreview_src := data_url,
            imagePreview_display := ''block''\<rparr>)"

section \<open>Saving a product (lines 133-170)\<close>

text \<open>
  The multipart payload: the three text fields, then the image when a file is
  selected. The price is \<^verbatim>\<open>value || ''\<close>, which is the value itself.
\<close>

definition formData :: "dashboard \<Rightarrow> (string \<times> form_value) list" where
  "formData s =
     [(''name'', Text (productName s)),
      (''description'', Text (productDescription s)),
      (''price'', Text (if productPrice s \<noteq> [] then productPrice s else []))] @
     (case productImage_file s of None \<Rightarrow> [] | Some imageFile \<Rightarrow> [(''image'', File imageFile)])"

text \<open>
  The request of the submit handler (lines 145-157). \<^verbatim>\<open>if (currentEditId)\<close> is a
  truthiness test: \<open>null\<close> and the number \<open>0\<close> are both false.
\<close>

definition save_request :: "dashboard \<Rightarrow> request" where
  "save_request s =
     (case currentEditId s of
        None \<Rightarrow>
          \<lparr>r_method = ''POST'', r_url = ''/api/products'',
           r_authorization = Some (authHeaders s), r_content_type = None,
           r_body = FormData (formData s)\<rparr>
      | Some i \<Rightarrow>
          if i \<noteq> 0
          then \<lparr>r_method = ''PUT'', r_url = ''/api/products/'' @ intToString i,
                r_authorization = Some (authHeaders s), r_content_type = None,
                r_body = FormData (formData s)\<rparr>
          else \<lparr>r_method = ''POST'', r_url = ''/api/products'',
                r_authorization = Some (authHeaders s), r_content_type = None,
                r_body = FormData (formData s)\<rparr>)"

text \<open>
  \<^verbatim>\<open>data.detail || 'Error al guardar producto'\<close>: the detail when the body has a
  non-empty one. A rejected \<open>json()\<close> is caught together with a rejected \<open>fetch\<close>.
  \<open>reload\<close> is the outcome of the request that \<open>loadProducts\<close> makes after a
  successful save.
\<close>

definition productForm_submit ::
  "(rat \<Rightarrow> string) \<Rightarrow> fetch_result \<Rightarrow> fetch_result \<Rightarrow> dashboard \<Rightarrow> dashboard" where
  "productForm_submit numberToString result reload s =
     (let s1 = fetch (save_request s) s
      in case result of
           NetworkError \<Rightarrow> showMessage (''Error de conexi'' @ [oacute] @ ''n'') ''error'' s1
         | Response status body \<Rightarrow>
             if ok status
             then loadProducts numberToString reload
                    (closeProductModal
                      (showMessage ''Producto guardado exitosamente'' ''success'' s1))
             else (case body of
                     NoJson \<Rightarrow>
                       showMessage (''Error de conexi'' @ [oacute] @ ''n'') ''error'' s1
                   | JsonObject detail \<Rightarrow>
                       showMessage
                         (if truthy_str detail then the detail else ''Error al guardar producto'')
                         ''error'' s1
                   | _ \<Rightarrow> showMessage ''Error al guardar producto'' ''error'' s1))"

section \<open>Editing a product (lines 175-203)\<close>

text \<open>
  \<open>editProduct\<close> fetches the whole list again and looks the id up with \<open>find\<close>. The
  status of the response is not looked at. A body that is not an array has no \<open>find\<close>,
  so the call throws and the \<open>catch\<close> shows the notification. The price goes into the
  form through the runtime's number-to-string conversion (the assignment to
  \<open>input.value\<close>), unless it is \<open>null\<close> or \<open>0\<close>.
\<close>

definition editProduct ::
  "(rat \<Rightarrow> string) \<Rightarrow> int \<Rightarrow> fetch_result \<Rightarrow> dashboard \<Rightarrow> dashboard" where
  "editProduct numberToString i result s =
     (let s1 = fetch (get_products s) s
      in case result of
           NetworkError \<Rightarrow> showMessage ''Error al cargar producto'' ''error'' s1
         | Response status body \<Rightarrow>
             (case body of
                JsonArray products \<Rightarrow>
                  (case find (\<lambda>p. p_id p = i) products of
                     None \<Rightarrow> s1
                   | Some product \<Rightarrow>
                       (let s2 = s1\<lparr>currentEditId := Some i,
                                     modalTitle := ''Editar Producto'',
                                     productId := intToString i,
                                     productName := p_name product,
                                     productDescription :=
                                       (if truthy_str (p_description product)
                                        then the (p_description product) else []),
                                     productPrice :=
                                       (if truthy_num (p_price product)
                                        then numberToString (the (p_price product)) else []),
                                     productImage_required := False\<rparr>;
                            s3 = (if truthy_image (p_image product)
                                  then s2\<lparr>imagePreview_src :=
                                            ''data:image/jpeg;base64,'' @ interp_image (p_image product),
                                          imagePreview_display := ''block''\<rparr>
                                  else s2)
                        in s3\<lparr>modalActive := True\<rparr>))
              | NoJson \<Rightarrow> showMessage ''Error al cargar producto'' ''error'' s1
              | _ \<Rightarrow> showMessage ''Error al cargar producto'' ''error'' s1))"

section \<open>Deleting a product (lines 208-226)\<close>

text \<open>\<open>confirmed\<close> is the answer to the \<open>confirm\<close> dialog.\<close>

definition deleteProduct ::
  "(rat \<Rightarrow> string) \<Rightarrow> int \<Rightarrow> bool \<Rightarrow> fetch_result \<Rightarrow> fetch_result \<Rightarrow> dashboard \<Rightarrow> dashboard" where
  "deleteProduct numberToString i confirmed result reload s =
     (if \<not> confirmed then s
      else
        let s1 = fetch \<lparr>r_method = ''DELETE'', r_url = ''/api/products/'' @ intToString i,
                        r_authorization = Some (authHeaders s), r_content_type = None,
                        r_body = NoBody\<rparr> s
        in case result of
             NetworkError \<Rightarrow> showMessage (''Error de conexi'' @ [oacute] @ ''n'') ''error'' s1
           | Response status body \<Rightarrow>
               if ok status
               then loadProducts numberToString reload
                      (showMessage ''Producto eliminado exitosamente'' ''success'' s1)
               else showMessage ''Error al eliminar producto'' ''error'' s1)"

section \<open>The configuration (lines 231-281)\<close>

text \<open>
  \<open>loadConfig\<close> sends no \<open>Authorization\<close> header. A body that is an object or an array
  without the configuration fields gives \<open>undefined\<close> for each of the three colours,
  which an input shows as that word (the inputs are taken to be text inputs; the
  template is not part of the repository).
\<close>

definition loadConfig :: "fetch_result \<Rightarrow> dashboard \<Rightarrow> dashboard" where
  "loadConfig result s =
     (let s1 = fetch \<lparr>r_method = ''GET'', r_url = ''/api/config'', r_authorization = None,
                       r_content_type = None, r_body = NoBody\<rparr> s
      in case result of
           NetworkError \<Rightarrow>
             showMessage (''Error al cargar configuraci'' @ [oacute] @ ''n'') ''error'' s1
         | Response status body \<Rightarrow>
             (case body of
                NoJson \<Rightarrow>
                  showMessage (''Error al cargar configuraci'' @ [oacute] @ ''n'') ''error'' s1
              | JsonConfig c \<Rightarrow>
                  s1\<lparr>primaryColor := primary_color c,
                     backgroundColor := background_color c,
                     productBgColor := product_bg_color c,
                     whatsappNumber :=
                       (if truthy_str (whatsapp_number c) then the (whatsapp_number c) else [])\<rparr>
              | _ \<Rightarrow>
                  s1\<lparr>primaryColor := ''undefined'',
                     backgroundColor := ''undefined'',
                     productBgColor := ''undefined'',
                     whatsappNumber := []\<rparr>))"

definition configForm_submit :: "fetch_result \<Rightarrow> dashboard \<Rightarrow> dashboard" where
  "configForm_submit result s =
     (let s1 = fetch \<lparr>r_method = ''PUT'', r_url = ''/api/config'',
                       r_authorization = Some (authHeaders s),
                       r_content_type = Some ''application/json'',
                       r_body = JsonBody \<lparr>primary_color = primaryColor s,
                                          background_color = backgroundColor s,
                                          product_bg_color = productBgColor s,
                                          whatsapp_number = Some (whatsappNumber s)\<rparr>\<rparr> s
      in case result of
           NetworkError \<Rightarrow> showMessage (''Error de conexi'' @ [oacute] @ ''n'') ''error'' s1
         | Response status body \<Rightarrow>
             if ok status
             then showMessage (''Configuraci'' @ [oacute] @ ''n guardada exitosamente'') ''success'' s1
             else showMessage (''Error al guardar configuraci'' @ [oacute] @ ''n'') ''error'' s1)"

section \<open>Tabs and logout (lines 21-42)\<close>

text \<open>
  The two tabs of the page. \<open>result\<close> is the outcome of the request that the load of
  the activated tab makes.
\<close>

definition tab_click :: "(rat \<Rightarrow> string) \<Rightarrow> tab \<Rightarrow> fetch_result \<Rightarrow> dashboard \<Rightarrow> dashboard" where
  "tab_click numberToString tabName result s =
     (case tabName of
        Products \<Rightarrow> loadProducts numberToString result (s\<lparr>activeTab := Products\<rparr>)
      | Config \<Rightarrow> loadConfig result (s\<lparr>activeTab := Config\<rparr>))"

definition logoutBtn_click :: "dashboard \<Rightarrow> dashboard" where
  "logoutBtn_click s = s\<lparr>localStorage_token := None, location_href := ''/login''\<rparr>"

section \<open>The script as a whole\<close>

text \<open>
  Running the script on a page (lines 4-16 and 299): the token guard, the two
  bindings, and the first \<open>loadProducts\<close>. \<^verbatim>\<open>!token\<close> holds for \<open>null\<close> and for the
  empty string; \<^verbatim>\<open>`Bearer ${token}`\<close> prints \<open>null\<close> as the word. Assigning to
  \<open>window.location.href\<close> starts a navigation and returns: the statements after it run.
\<close>

definition script_load :: "(rat \<Rightarrow> string) \<Rightarrow> fetch_result \<Rightarrow> dashboard \<Rightarrow> dashboard" where
  "script_load numberToString result page =
     (let token = localStorage_token page;
          s1 = (if \<not> truthy_str token then page\<lparr>location_href := ''/login''\<rparr> else page);
          s2 = s1\<lparr>authHeaders := ''Bearer '' @ interp_str token, currentEditId := None\<rparr>
      in loadProducts numberToString result s2)"

text \<open>
  What can happen on the page afterwards: the user's actions, each with the outcomes
  of the requests its handler makes, and time passing. A handler is run from its
  start to its end with the responses it gets.
\<close>

datatype event =
    TabClick tab fetch_result
  | LogoutClick
  | AddClick
  | CloseClick
  | WindowClick bool
  | ImageChange "(string \<times> string) option"
  | TypeProduct string string string
  | TypeConfig string string string string
  | Submit fetch_result fetch_result
  | EditClick int fetch_result
  | DeleteClick int bool fetch_result fetch_result
  | ConfigSubmit fetch_result
  | Wait nat

fun step :: "(rat \<Rightarrow> string) \<Rightarrow> dashboard \<Rightarrow> event \<Rightarrow> dashboard" where
  "step ns s (TabClick t r) = tab_click ns t r s"
| "step ns s LogoutClick = logoutBtn_click s"
| "step ns s AddClick = addBtn_onclick s"
| "step ns s CloseClick = closeProductModal s"
| "step ns s (WindowClick on_modal) = window_onclick on_modal s"
| "step ns s (ImageChange selection) = productImage_change selection s"
| "step ns s (TypeProduct n d p) =
     s\<lparr>productName := n, productDescription := d, productPrice := p\<rparr>"
| "step ns s (TypeConfig a b c w) =
     s\<lparr>primaryColor := a, backgroundColor := b, productBgColor := c, whatsappNumber := w\<rparr>"
| "step ns s (Submit r reload) = productForm_submit ns r reload s"
| "step ns s (EditClick i r) = editProduct ns i r s"
| "step ns s (DeleteClick i confirmed r reload) = deleteProduct ns i confirmed r reload s"
| "step ns s (ConfigSubmit r) = configForm_submit r s"
| "step ns s (Wait d) = advance d s"

definition run :: "(rat \<Rightarrow> string) \<Rightarrow> event list \<Rightarrow> dashboard \<Rightarrow> dashboard" where
  "run ns events s = foldl (step ns) s events"

text \<open>
  The id that the last opening of the modal left in \<open>currentEditId\<close>, read off the
  events: the add button leaves \<open>null\<close>, an \<open>editProduct\<close> that finds its product
  leaves the id, and no other event counts.
\<close>

fun opened_for :: "int option \<Rightarrow> event \<Rightarrow> int option" where
  "opened_for cur AddClick = None"
| "opened_for cur (EditClick i (Response status (JsonArray products))) =
     (case find (\<lambda>p. p_id p = i) products of None \<Rightarrow> cur | Some product \<Rightarrow> Some i)"
| "opened_for cur e = cur"

definition last_opened :: "event list \<Rightarrow> int option" where
  "last_opened events = foldl opened_for None events"

section \<open>Example values\<close>

definition mate :: product where
  "mate = \<lparr>p_id = 7, p_name = ''Mate'', p_description = Some ''Calabaza'',
            p_price = Some (19 / 2), p_image = NullImage\<rparr>"

definition blank_page :: dashboard where
  "blank_page =
     \<lparr>localStorage_token = Some ''abc'', location_href = ''/dashboard'', authHeaders = [],
      currentEditId = None, activeTab = Products, productsList = [], modalActive = False,
      modalTitle = [], productId = [], productName = [], productDescription = [],
      productPrice = [], default_productName = [], default_productDescription = [],
      default_productPrice = [], productImage_required = True, productImage_file = None,
      imagePreview_src = [], imagePreview_display = ''none'', primaryColor = [],
      backgroundColor = [], productBgColor = [], whatsappNumber = [], message_text = [],
      message_class = ''message'', clock = 0, timers = [], requests = []\<rparr>"

definition session :: dashboard where
  "session = script_load (\<lambda>x. ''9.5'') (Response 200 (JsonArray [mate])) blank_page"

text \<open>
  The session after an \<open>editProduct(7)\<close> that finds product 7 and a click on the close
  button of the modal.
\<close>

definition closed_after_edit :: dashboard where
  "closed_after_edit =
     run (\<lambda>x. ''9.5'') [EditClick 7 (Response 200 (JsonArray [mate])), CloseClick] session"

section \<open>Facts about the number formatting\<close>

lemma digits_nonempty: "digits n \<noteq> []"
  by (subst digits.simps) simp

lemma is_digit_digit: "d < 10 \<Longrightarrow> is_digit (digit d)"
  by (simp add: is_digit_def digit_def)

lemma is_digit_zero: "is_digit (CHR ''0'')"
  by (simp add: is_digit_def)

lemma digits_all_digits: "list_all is_digit (digits n)"
proof (induction n rule: digits.induct)
  case (1 n)
  show ?case
  proof (cases "n < 10")
    case True
    then show ?thesis by (subst digits.simps) (simp add: is_digit_digit)
  next
    case False
    with 1 show ?thesis by (subst digits.simps) (simp add: is_digit_digit)
  qed
qed

lemma digits_7: "digits 7 = ''7''"
  by code_simp

lemma toFixed_9_5: "toFixed ns 2 (19 / 2) = ''9.50''"
  by code_simp

text \<open>
  Below \<open>10^21\<close> the result of \<open>toFixed(2)\<close> is a sign, at least one digit, the point
  and exactly two digits.
\<close>

lemma toFixed_two_places:
  assumes "\<bar>x\<bar> < 10 ^ 21"
  shows "\<exists>a b. toFixed ns 2 x = (if x < 0 then ''-'' else []) @ a @ ''.'' @ b \<and>
           a \<noteq> [] \<and> length b = 2 \<and> list_all is_digit (a @ b)"
proof -
  define y where "y = (if x < 0 then - x else x)"
  define m where "m = digits (nat \<lfloor>y * 10 ^ 2 + 1 / 2\<rfloor>)"
  define m' where "m' = (if length m \<le> 2 then replicate (3 - length m) (CHR ''0'') @ m else m)"
  define k' where "k' = (if length m \<le> 2 then 3 else length m)"
  have small: "\<not> y \<ge> 10 ^ 21"
    using assms by (auto simp: y_def)
  have eq: "toFixed ns 2 x =
      (if x < 0 then ''-'' else []) @ take (k' - 2) m' @ ''.'' @ drop (k' - 2) m'"
    using small unfolding toFixed_def Let_def y_def m_def m'_def k'_def
    by (simp add: numeral_3_eq_3)
  have mne: "m \<noteq> []"
    by (simp add: m_def digits_nonempty)
  have len: "length m' = k'" "2 < k'"
    using mne by (auto simp: m'_def k'_def)
  have dig: "list_all is_digit m'"
    using digits_all_digits [of "nat \<lfloor>y * 10 ^ 2 + 1 / 2\<rfloor>"]
    by (simp add: m'_def m_def is_digit_zero list_all_iff)
  have "take (k' - 2) m' \<noteq> []"
    using len by auto
  moreover have "length (drop (k' - 2) m') = 2"
    using len by auto
  moreover have "list_all is_digit (take (k' - 2) m' @ drop (k' - 2) m')"
    using dig by simp
  ultimately show ?thesis
    using eq by blast
qed

section \<open>Facts about the handlers\<close>

lemma requests_loadProducts:
  "requests (loadProducts ns r s) = requests s @ [get_products s]"
  by (simp add: loadProducts_def fetch_def showMessage_def Let_def
           split: fetch_result.split json.split)

lemma productsList_loadProducts:
  "status \<noteq> 401 \<Longrightarrow>
   productsList (loadProducts ns (Response status (JsonArray products)) s) =
     render_products ns products"
  by (simp add: loadProducts_def fetch_def Let_def)

lemma location_loadProducts_login:
  "location_href s = ''/login'' \<Longrightarrow> location_href (loadProducts ns r s) = ''/login''"
  by (simp add: loadProducts_def fetch_def showMessage_def Let_def
           split: fetch_result.split json.split)

lemma session_token: "localStorage_token session = Some ''abc''"
  by (simp add: session_def script_load_def loadProducts_def fetch_def Let_def blank_page_def)

lemma session_location: "location_href session = ''/dashboard''"
  by (simp add: session_def script_load_def loadProducts_def fetch_def Let_def blank_page_def)

lemma timers_session: "timers session = []"
  by (simp add: session_def script_load_def loadProducts_def fetch_def Let_def blank_page_def)

lemma requests_submit_first:
  "take (Suc (length (requests s))) (requests (productForm_submit ns r reload s)) =
     requests s @ [save_request s]"
  by (simp add: productForm_submit_def requests_loadProducts closeProductModal_def
        fetch_def showMessage_def Let_def split: fetch_result.split json.split)

text \<open>Which handlers write \<open>currentEditId\<close>: only the two that open the modal.\<close>

lemma currentEditId_loadProducts: "currentEditId (loadProducts ns r s) = currentEditId s"
  by (simp add: loadProducts_def fetch_def showMessage_def Let_def
           split: fetch_result.split json.split)

lemma currentEditId_loadConfig: "currentEditId (loadConfig r s) = currentEditId s"
  by (simp add: loadConfig_def fetch_def showMessage_def Let_def
           split: fetch_result.split json.split)

lemma currentEditId_submit: "currentEditId (productForm_submit ns r reload s) = currentEditId s"
  by (simp add: productForm_submit_def currentEditId_loadProducts closeProductModal_def
                fetch_def showMessage_def Let_def
           split: fetch_result.split json.split)

lemma currentEditId_delete:
  "currentEditId (deleteProduct ns i c r reload s) = currentEditId s"
  by (simp add: deleteProduct_def currentEditId_loadProducts fetch_def showMessage_def Let_def
           split: fetch_result.split)

lemma currentEditId_configForm: "currentEditId (configForm_submit r s) = currentEditId s"
  by (simp add: configForm_submit_def fetch_def showMessage_def Let_def
           split: fetch_result.split)

lemma currentEditId_advance: "currentEditId (advance d s) = currentEditId s"
  by (simp add: advance_def Let_def)

lemma currentEditId_editProduct:
  "currentEditId (editProduct ns i r s) = opened_for (currentEditId s) (EditClick i r)"
  by (cases r; simp add: editProduct_def fetch_def showMessage_def Let_def
           split: json.split option.split)

lemma currentEditId_step: "currentEditId (step ns s e) = opened_for (currentEditId s) e"
proof (cases e)
  case (EditClick i r)
  then show ?thesis using currentEditId_editProduct by simp
next
  case (TabClick t r)
  then show ?thesis
    by (cases t) (simp_all add: tab_click_def currentEditId_loadProducts currentEditId_loadConfig)
qed (simp_all add: logoutBtn_click_def addBtn_onclick_def productForm_reset_def
       closeProductModal_def window_onclick_def productImage_change_def
       currentEditId_submit currentEditId_delete currentEditId_configForm
       currentEditId_advance split: option.split prod.split)

lemma currentEditId_foldl:
  "currentEditId (foldl (step ns) s events) = foldl opened_for (currentEditId s) events"
  by (induction events arbitrary: s) (simp_all add: currentEditId_step)

lemma currentEditId_script_load: "currentEditId (script_load ns r page) = None"
  by (simp add: script_load_def currentEditId_loadProducts Let_def)

section \<open>The claims\<close>

text \<open>
  Claim C1: every authenticated request (product list, product save, product delete,
  config save) whose response has status 401 removes the stored token and redirects
  to \<open>/login\<close>. Only \<open>loadProducts\<close> tests for 401. Evaluated on a session whose token
  is \<open>abc\<close>: a 401 answer to a save, a delete, a config save or the list request of
  \<open>editProduct\<close> leaves the token and the address as they were and shows a
  notification, while the same answer to \<open>loadProducts\<close> removes the token and
  redirects.
\<close>

theorem only_loadProducts_handles_401:
  "localStorage_token (productForm_submit ns (Response 401 (JsonObject (Some ''Invalid token''))) reload session) = Some ''abc'' \<and>
   location_href (productForm_submit ns (Response 401 (JsonObject (Some ''Invalid token''))) reload session) = ''/dashboard'' \<and>
   message_text (productForm_submit ns (Response 401 (JsonObject (Some ''Invalid token''))) reload session) = ''Invalid token'' \<and>
   localStorage_token (deleteProduct ns 7 True (Response 401 (JsonObject (Some ''Invalid token''))) reload session) = Some ''abc'' \<and>
   location_href (deleteProduct ns 7 True (Response 401 (JsonObject (Some ''Invalid token''))) reload session) = ''/dashboard'' \<and>
   message_text (deleteProduct ns 7 True (Response 401 (JsonObject (Some ''Invalid token''))) reload session) = ''Error al eliminar producto'' \<and>
   localStorage_token (configForm_submit (Response 401 (JsonObject (Some ''Invalid token''))) session) = Some ''abc'' \<and>
   location_href (configForm_submit (Response 401 (JsonObject (Some ''Invalid token''))) session) = ''/dashboard'' \<and>
   localStorage_token (editProduct ns 7 (Response 401 (JsonObject (Some ''Invalid token''))) session) = Some ''abc'' \<and>
   location_href (editProduct ns 7 (Response 401 (JsonObject (Some ''Invalid token''))) session) = ''/dashboard'' \<and>
   localStorage_token (loadProducts ns (Response 401 (JsonObject (Some ''Invalid token''))) session) = None \<and>
   location_href (loadProducts ns (Response 401 (JsonObject (Some ''Invalid token''))) session) = ''/login''"
  by (simp add: productForm_submit_def deleteProduct_def configForm_submit_def editProduct_def
        loadProducts_def ok_def fetch_def showMessage_def Let_def session_token session_location)

text \<open>
  Claim C2: on script load with no token in storage the browser is redirected to
  \<open>/login\<close> and the script issues no data request. The guard of lines 5-7 only
  assigns the address; the call of \<open>loadProducts\<close> on line 299 is not guarded. Evaluated
  on a page without a token, whatever the answer: the address is \<open>/login\<close>, and the
  script has issued \<^verbatim>\<open>GET /api/products\<close> with the header \<^verbatim>\<open>Bearer null\<close>.
\<close>

theorem load_without_token_fetches:
  "location_href (script_load ns r (blank_page\<lparr>localStorage_token := None\<rparr>)) = ''/login'' \<and>
   requests (script_load ns r (blank_page\<lparr>localStorage_token := None\<rparr>)) =
     [\<lparr>r_method = ''GET'', r_url = ''/api/products'', r_authorization = Some ''Bearer null'',
       r_content_type = None, r_body = NoBody\<rparr>]"
  by (simp add: script_load_def Let_def requests_loadProducts location_loadProducts_login
        get_products_def blank_page_def)

text \<open>
  Claim C3, as amended: closing the product modal (the close button, or a click on
  the modal itself) hides it and leaves \<open>currentEditId\<close> as it was; the add button
  sets it to \<open>null\<close>; and in every state reached from the script's load,
  \<open>currentEditId\<close> is what the last opening of the modal left there (\<open>null\<close> when no
  \<open>editProduct\<close> has found its product since the load or since the last click on the
  add button).
\<close>

theorem close_keeps_currentEditId:
  "currentEditId (closeProductModal s) = currentEditId s \<and>
   \<not> modalActive (closeProductModal s) \<and>
   currentEditId (window_onclick True s) = currentEditId s \<and>
   \<not> modalActive (window_onclick True s) \<and>
   currentEditId (addBtn_onclick s) = None \<and>
   currentEditId (run ns events (script_load ns r page)) = last_opened events"
  by (simp add: closeProductModal_def window_onclick_def addBtn_onclick_def
        productForm_reset_def run_def last_opened_def currentEditId_foldl
        currentEditId_script_load)

text \<open>
  The claim C3 as it was stated fails: after the script's load, an \<open>editProduct(7)\<close>
  that finds product 7 and a click on the close button, the modal is closed and
  \<open>currentEditId\<close> is 7.
\<close>

theorem closed_modal_with_edit_id:
  "\<not> modalActive closed_after_edit \<and> currentEditId closed_after_edit = Some 7"
  by (simp add: closed_after_edit_def run_def session_def closeProductModal_def
        editProduct_def fetch_def Let_def mate_def)

text \<open>
  Claim C4: a failed save whose JSON body is \<^verbatim>\<open>{detail: "name taken"}\<close> shows
  \<open>name taken\<close>, and a failed save with no JSON body shows the fallback message of the
  save. Evaluated: the first holds; with no JSON body \<open>response.json()\<close> rejects inside
  the \<open>try\<close>, and the notification is the connection error of the \<open>catch\<close>. The fallback
  of the save appears for a JSON body without a detail; the delete handler, which
  does not read the body, shows its own fallback for the same response.
\<close>

theorem save_error_messages:
  "message_text (productForm_submit ns (Response 400 (JsonObject (Some ''name taken''))) reload s) = ''name taken'' \<and>
   message_text (productForm_submit ns (Response 500 NoJson) reload s) = ''Error de conexi'' @ [oacute] @ ''n'' \<and>
   message_text (productForm_submit ns (Response 500 (JsonObject None)) reload s) = ''Error al guardar producto'' \<and>
   message_text (deleteProduct ns i True (Response 500 NoJson) reload s) = ''Error al eliminar producto''"
  by (simp add: productForm_submit_def deleteProduct_def ok_def fetch_def showMessage_def Let_def)

text \<open>
  Claim C5: the notification surface holds one message. \<open>showMessage\<close> sets the text
  and the class \<open>message success\<close> or \<open>message error\<close>; 4000 ms later the class is set
  back to \<open>message\<close> (that is the clearing: the text stays in the element). A second
  message overwrites the first, and the callback of the first still runs: when the
  second message comes \<open>d < 4000\<close> ms after the first, its class is set back
  \<open>4000 - d\<close> ms after it was shown. With no earlier callback pending, a message keeps
  its class for every \<open>d < 4000\<close>.
\<close>

theorem notification_single_slot:
  "message_text (showMessage t1 ty1 s) = t1 \<and>
   message_class (showMessage t1 ty1 s) = ''message '' @ ty1 \<and>
   message_class (advance 4000 (showMessage t1 ty1 s)) = ''message'' \<and>
   message_text (advance 4000 (showMessage t1 ty1 s)) = t1 \<and>
   message_text (showMessage t2 ty2 (advance d (showMessage t1 ty1 s))) = t2 \<and>
   message_class (showMessage t2 ty2 (advance d (showMessage t1 ty1 s))) = ''message '' @ ty2 \<and>
   (d < 4000 \<longrightarrow>
      message_class (advance (4000 - d) (showMessage t2 ty2 (advance d (showMessage t1 ty1 s))))
        = ''message'') \<and>
   (d < 4000 \<and> timers s = [] \<longrightarrow>
      message_class (advance d (showMessage t1 ty1 s)) = ''message '' @ ty1)"
  by (auto simp add: showMessage_def advance_def Let_def)

theorem notification_single_slot_witness:
  "(1000 :: nat) < 4000 \<and> timers session = [] \<and>
   message_class
     (advance (4000 - 1000)
       (showMessage ''Error de red'' ''error''
         (advance 1000 (showMessage ''Producto guardado exitosamente'' ''success'' session))))
     = ''message'' \<and>
   message_class (advance 1000 (showMessage ''Producto guardado exitosamente'' ''success'' session))
     = ''message success''"
  using notification_single_slot
    [of "''Producto guardado exitosamente''" "''success''" session "''Error de red''" "''error''" 1000]
  by (simp add: timers_session)

text \<open>
  Claim C6: submitted with \<open>currentEditId = null\<close> the product form issues
  \<^verbatim>\<open>POST /api/products\<close>; submitted with \<open>currentEditId = 7\<close> it issues
  \<^verbatim>\<open>PUT /api/products/7\<close>. The request of the handler (\<open>save_request\<close>) is the first
  one it adds to the requests made so far.
\<close>

theorem save_posts_or_puts:
  "r_method (save_request (s\<lparr>currentEditId := None\<rparr>)) = ''POST'' \<and>
   r_url (save_request (s\<lparr>currentEditId := None\<rparr>)) = ''/api/products'' \<and>
   r_method (save_request (s\<lparr>currentEditId := Some 7\<rparr>)) = ''PUT'' \<and>
   r_url (save_request (s\<lparr>currentEditId := Some 7\<rparr>)) = ''/api/products/7'' \<and>
   take (Suc (length (requests s))) (requests (productForm_submit ns r reload s)) =
     requests s @ [save_request s]"
  by (simp add: save_request_def intToString_def digits_7 requests_submit_first)



text \<open>
  Claim C8, as amended: when \<open>loadProducts\<close> renders the fetched list, the card of
  every product whose price is 9.5 shows the price line \<^verbatim>\<open>$9.50\<close>; and every price
  that is shown (not \<open>null\<close>, not \<open>0\<close>) and below \<open>10^21\<close> in size is written with a
  sign, at least one digit, the point and exactly two digits. The list is rendered
  when the response is a product array and its status is not 401; the card stands
  in \<open>productsList\<close> between the cards of the products before and after it.
\<close>

theorem price_9_5_renders_9_50:
  assumes "p \<in> set products" and "status \<noteq> 401"
  shows "(p_price p = Some (19 / 2) \<longrightarrow>
            (\<exists>xs ys. products = xs @ p # ys \<and>
               productsList (loadProducts ns (Response status (JsonArray products)) s) =
                 concat (map (product_card ns) xs) @
                 card_head p @ description_line p @ nl @ indent 20 @
                 ''<p><strong>$9.50</strong></p>'' @ card_tail p @
                 concat (map (product_card ns) ys))) \<and>
         (p_price p = Some x \<and> x \<noteq> 0 \<and> \<bar>x\<bar> < 10 ^ 21 \<longrightarrow>
            (\<exists>xs ys a b. products = xs @ p # ys \<and>
               productsList (loadProducts ns (Response status (JsonArray products)) s) =
                 concat (map (product_card ns) xs) @
                 card_head p @ description_line p @ nl @ indent 20 @
                 ''<p><strong>$'' @ (if x < 0 then ''-'' else []) @ a @ ''.'' @ b @
                 ''</strong></p>'' @ card_tail p @
                 concat (map (product_card ns) ys) \<and>
               a \<noteq> [] \<and> length b = 2 \<and> list_all is_digit (a @ b)))"
proof -
  from assms(1) obtain xs ys where split: "products = xs @ p # ys"
    by (auto dest: split_list)
  have shown: "productsList (loadProducts ns (Response status (JsonArray products)) s) =
      concat (map (product_card ns) xs) @
      card_head p @ description_line p @ nl @ indent 20 @ price_line ns p @ card_tail p @
      concat (map (product_card ns) ys)"
    using assms(2) by (simp add: productsList_loadProducts render_products_def split product_card_def)
  have one: "\<exists>xs ys. products = xs @ p # ys \<and>
      productsList (loadProducts ns (Response status (JsonArray products)) s) =
        concat (map (product_card ns) xs) @
        card_head p @ description_line p @ nl @ indent 20 @
        ''<p><strong>$9.50</strong></p>'' @ card_tail p @
        concat (map (product_card ns) ys)"
    if "p_price p = Some (19 / 2)"
  proof -
    have "price_line ns p = ''<p><strong>$9.50</strong></p>''"
      using that by (simp add: price_line_def toFixed_9_5)
    with shown split show ?thesis
      by auto
  qed
  have two: "\<exists>xs ys a b. products = xs @ p # ys \<and>
      productsList (loadProducts ns (Response status (JsonArray products)) s) =
        concat (map (product_card ns) xs) @
        card_head p @ description_line p @ nl @ indent 20 @
        ''<p><strong>$'' @ (if x < 0 then ''-'' else []) @ a @ ''.'' @ b @
        ''</strong></p>'' @ card_tail p @
        concat (map (product_card ns) ys) \<and>
      a \<noteq> [] \<and> length b = 2 \<and> list_all is_digit (a @ b)"
    if "p_price p = Some x" "x \<noteq> 0" "\<bar>x\<bar> < 10 ^ 21"
  proof -
    from toFixed_two_places [OF that(3), of ns] obtain a b where
      ab: "toFixed ns 2 x = (if x < 0 then ''-'' else []) @ a @ ''.'' @ b"
          "a \<noteq> []" "length b = 2" "list_all is_digit (a @ b)"
      by blast
    have "price_line ns p =
            ''<p><strong>$'' @ (if x < 0 then ''-'' else []) @ a @ ''.'' @ b @ ''</strong></p>''"
      using that(1,2) by (simp add: price_line_def ab(1))
    with shown have "productsList (loadProducts ns (Response status (JsonArray products)) s) =
        concat (map (product_card ns) xs) @
        card_head p @ description_line p @ nl @ indent 20 @
        ''<p><strong>$'' @ (if x < 0 then ''-'' else []) @ a @ ''.'' @ b @
        ''</strong></p>'' @ card_tail p @
        concat (map (product_card ns) ys)"
      by simp
    with split ab(2-4) show ?thesis
      by blast
  qed
  from one two show ?thesis
    by blast
qed

theorem price_9_5_renders_9_50_witness:
  "mate \<in> set [mate] \<and> (200 :: nat) \<noteq> 401 \<and> p_price mate = Some (19 / 2) \<and>
   (19 / 2 :: rat) \<noteq> 0 \<and> \<bar>19 / 2 :: rat\<bar> < 10 ^ 21 \<and>
   (\<exists>xs ys. [mate] = xs @ mate # ys \<and>
      productsList (loadProducts (\<lambda>x. ''9.5'') (Response 200 (JsonArray [mate])) session) =
        concat (map (product_card (\<lambda>x. ''9.5'')) xs) @
        card_head mate @ description_line mate @ nl @ indent 20 @
        ''<p><strong>$9.50</strong></p>'' @ card_tail mate @
        concat (map (product_card (\<lambda>x. ''9.5'')) ys)) \<and>
   (\<exists>xs ys a b. [mate] = xs @ mate # ys \<and>
      productsList (loadProducts (\<lambda>x. ''9.5'') (Response 200 (JsonArray [mate])) session) =
        concat (map (product_card (\<lambda>x. ''9.5'')) xs) @
        card_head mate @ description_line mate @ nl @ indent 20 @
        ''<p><strong>$'' @ (if (19 / 2 :: rat) < 0 then ''-'' else []) @ a @ ''.'' @ b @
        ''</strong></p>'' @ card_tail mate @
        concat (map (product_card (\<lambda>x. ''9.5'')) ys) \<and>
      a \<noteq> [] \<and> length b = 2 \<and> list_all is_digit (a @ b))"
proof -
  have member: "mate \<in> set [mate]"
    by simp
  have status: "(200 :: nat) \<noteq> 401"
    by simp
  have price: "p_price mate = Some (19 / 2)"
    by (simp add: mate_def)
  have shown: "(19 / 2 :: rat) \<noteq> 0 \<and> \<bar>19 / 2 :: rat\<bar> < 10 ^ 21"
    by simp
  show ?thesis
    using member status price shown
      price_9_5_renders_9_50
        [OF member status, where x = "19 / 2" and ns = "\<lambda>x. ''9.5''" and s = session]
    by blast
qed

text \<open>
  The claim C8 as it was stated fails in its general half, that prices are written
  with exactly two decimals. A price of \<open>10^21\<close> is handed by \<open>toFixed\<close> to the
  runtime's number-to-string conversion, which prints it as \<open>1e+21\<close>, and the card
  shows \<^verbatim>\<open>$1e+21\<close>; a price of \<open>0\<close> gets no price line at all.
\<close>

theorem price_without_two_decimals:
  "productsList
     (loadProducts (\<lambda>x. ''1e+21'')
        (Response 200 (JsonArray [mate\<lparr>p_price := Some (10 ^ 21)\<rparr>])) session) =
     card_head mate @ description_line mate @ nl @ indent 20 @
     ''<p><strong>$1e+21</strong></p>'' @ card_tail mate \<and>
   productsList
     (loadProducts (\<lambda>x. ''1e+21'')
        (Response 200 (JsonArray [mate\<lparr>p_price := Some 0\<rparr>])) session) =
     card_head mate @ description_line mate @ nl @ indent 20 @ card_tail mate"
  by (simp add: productsList_loadProducts render_products_def product_card_def
        price_line_def toFixed_def card_head_def card_tail_def description_line_def)

text \<open>
  Claim C9: when the id is the id of no product of the list that \<open>editProduct(id)\<close>
  fetched, the call changes nothing but the record of the requests made: the modal,
  \<open>currentEditId\<close>, the form fields and the notification are as before.
\<close>

theorem editProduct_unknown_id:
  assumes "i \<notin> set (map p_id products)"
  shows "editProduct ns i (Response status (JsonArray products)) s =
           s\<lparr>requests := requests s @ [get_products s]\<rparr>"
proof -
  have "find (\<lambda>p. p_id p = i) products = None"
    using assms by (auto simp: find_None_iff)
  then show ?thesis
    by (simp add: editProduct_def fetch_def Let_def)
qed

theorem editProduct_unknown_id_witness:
  "8 \<notin> set (map p_id [mate]) \<and>
   editProduct (\<lambda>x. ''9.5'') 8 (Response 200 (JsonArray [mate])) session =
     session\<lparr>requests := requests session @ [get_products session]\<rparr>"
proof -
  have absent: "8 \<notin> set (map p_id [mate])"
    by (simp add: mate_def)
  show ?thesis
    using absent editProduct_unknown_id [OF absent, of "\<lambda>x. ''9.5''" 200 session]
    by simp
qed

text \<open>
  Claim C10: the card leaves the price line out when the price is \<open>0\<close>, and the
  description line out when the description is the empty string, as it does for
  \<open>null\<close>: both lines are gated by truthiness. The price line is empty exactly for
  \<open>null\<close> and \<open>0\<close>, the description line exactly for \<open>null\<close> and the empty string.
\<close>

theorem zero_price_omitted:
  "price_line ns (p\<lparr>p_price := Some 0\<rparr>) = [] \<and>
   product_card ns (p\<lparr>p_price := Some 0\<rparr>) = product_card ns (p\<lparr>p_price := None\<rparr>) \<and>
   product_card ns (p\<lparr>p_price := Some 0\<rparr>) =
     card_head p @ description_line p @ nl @ indent 20 @ card_tail p \<and>
   description_line (p\<lparr>p_description := Some []\<rparr>) = [] \<and>
   product_card ns (p\<lparr>p_description := Some []\<rparr>) =
     product_card ns (p\<lparr>p_description := None\<rparr>) \<and>
   (price_line ns p = []) = (p_price p = None \<or> p_price p = Some 0) \<and>
   (description_line p = []) = (p_description p = None \<or> p_description p = Some [])"
  by (cases "p_price p"; cases "p_description p")
     (simp_all add: price_line_def product_card_def description_line_def
        card_head_def card_tail_def)

end
